theory Spec2Isabelle
  imports Main "HOL-Library.Sublist"
begin

section \<open>Python values used by the intent bridge\<close>

text \<open>
  A Python \<open>str\<close> is a sequence of Unicode code points. The casual markers and the
  follow-up templates of \<open>safeclaw_integration.py\<close> contain CJK text, so a string is
  modelled as the list of its code points; \<open>ascii\<close> embeds an ASCII literal.
  The substring test \<open>a in b\<close> is \<^const>\<open>sublist\<close> \<open>a b\<close>.
\<close>

type_synonym str = "nat list"

definition ascii :: "string \<Rightarrow> str" where
  "ascii s = map of_char s"

text \<open>
  \<open>str.lower()\<close>. On a string made of ASCII characters and CJK unified ideographs
  (U+4E00 to U+9FFF, which have no case) Python maps \<open>A\<close>..\<open>Z\<close> to \<open>a\<close>..\<open>z\<close> and
  leaves every other character alone. On any other string the result is given by the
  Unicode case tables of the interpreter, which are not part of this repository: they
  are the parameter \<open>ul\<close>, and every theorem below holds for all \<open>ul\<close>.
\<close>

definition plain_cp :: "nat \<Rightarrow> bool" where
  "plain_cp k \<longleftrightarrow> k < 128 \<or> (0x4E00 \<le> k \<and> k \<le> 0x9FFF)"

definition lower_ascii :: "nat \<Rightarrow> nat" where
  "lower_ascii k = (if 65 \<le> k \<and> k \<le> 90 then k + 32 else k)"

definition str_lower :: "(str \<Rightarrow> str) \<Rightarrow> str \<Rightarrow> str" where
  "str_lower ul s = (if list_all plain_cp s then map lower_ascii s else ul s)"

definition ascii_only_lower :: "str \<Rightarrow> str" where
  "ascii_only_lower s = map lower_ascii s"

text \<open>Decimal rendering of an \<open>int\<close> inside an f-string.\<close>

fun digits :: "nat \<Rightarrow> str" where
  "digits n = (if n < 10 then [48 + n] else digits (n div 10) @ [48 + n mod 10])"

definition str_of_int :: "int \<Rightarrow> str" where
  "str_of_int i = (if i < 0 then 45 # digits (nat (- i)) else digits (nat i))"

text \<open>
  List subscription \<open>xs[i]\<close>: a negative index counts from the end, an index outside
  the list raises \<open>IndexError\<close>.
\<close>

datatype error = IndexError

definition py_index :: "'a list \<Rightarrow> int \<Rightarrow> error + 'a" where
  "py_index xs i =
     (if 0 \<le> i \<and> i < int (length xs) then Inr (xs ! nat i)
      else if i < 0 \<and> - int (length xs) \<le> i then Inr (xs ! nat (int (length xs) + i))
      else Inl IndexError)"

text \<open>Truth value of an optional string: \<open>None\<close> and \<open>""\<close> are false.\<close>

definition truthy :: "str option \<Rightarrow> bool" where
  "truthy v = (case v of None \<Rightarrow> False | Some s \<Rightarrow> s \<noteq> [])"


section \<open>The collaborators\<close>

text \<open>
  Modelled from the spec: the modules \<open>project_tracker\<close> and \<open>habit_tracker\<close> are not
  among the sources, so the types of what they hand to the bridge follow the
  collaborator contract of the specification (section 6):
  \<open>process_message(text) -> {action: string, response: string|null}\<close>,
  \<open>Project{name, phases: ordered sequence of {name, ...}, current_phase: int}\<close> and
  \<open>Habit{name, streak: int, total: int}\<close>.
\<close>

record proc_result =
  action :: str
  response :: "str option"

record phase =
  name :: str

record project =
  name :: str
  phases :: "phase list"
  current_phase :: int

record habit =
  name :: str
  streak :: int
  total :: int

text \<open>
  The two assistants are opaque and stateful (\<open>process_message\<close> may create a project or
  log a habit). Their behaviour is a parameter: four operations on a collaborator state
  \<open>'w\<close>, each returning its result and the state it leaves behind.
\<close>

record 'w collaborators =
  project_process_message :: "str \<Rightarrow> 'w \<Rightarrow> proc_result \<times> 'w"
  get_pending_projects :: "'w \<Rightarrow> project list \<times> 'w"
  habit_process_message :: "str \<Rightarrow> 'w \<Rightarrow> proc_result \<times> 'w"
  get_active_habits :: "'w \<Rightarrow> habit list \<times> 'w"


section \<open>SafeClawIntentBridge\<close>

record intent_result =
  action :: str
  message :: "str option"

definition casual_patterns :: "str list" where
  "casual_patterns =
     [[0x5929, 0x6C14], [0x5728, 0x5417], [0x6700, 0x8FD1], [0x4ECA, 0x5929],
      [0x4F60, 0x597D], [0x54C8, 0x5570], ascii ''hi'', ascii ''hello'', ascii ''hey'']"

definition is_casual_message :: "(str \<Rightarrow> str) \<Rightarrow> str \<Rightarrow> bool" where
  "is_casual_message ul text =
     (let text_lower = str_lower ul text
      in list_ex (\<lambda>pattern. sublist (str_lower ul pattern) text_lower) casual_patterns)"

definition project_follow_up :: "str \<Rightarrow> str \<Rightarrow> str" where
  "project_follow_up project_name phase_name =
     [0x5BF9, 0x4E86, 0xFF0C] @ project_name
     @ [0x8FDB, 0x5C55, 0x600E, 0x4E48, 0x6837, 0x5566, 0xFF1F] @ phase_name
     @ [0x9636, 0x6BB5, 0x6709, 0x4EC0, 0x4E48, 0x9700, 0x8981, 0x5E2E, 0x5FD9, 0x7684,
        0x5417, 0xFF1F]"

definition habit_follow_up :: "str \<Rightarrow> int \<Rightarrow> str" where
  "habit_follow_up habit_name habit_streak =
     habit_name @ [0x8FDE, 0x7EED] @ str_of_int habit_streak
     @ [0x5929, 0x4E86, 0xFF01, 0x4ECA, 0x5929, 0x505A, 0x4E86, 0x5417, 0xFF1F]"

definition generate_follow_up :: "'w collaborators \<Rightarrow> 'w \<Rightarrow> (error + str option) \<times> 'w" where
  "generate_follow_up c w =
     (let (projects, w1) = get_pending_projects c w
      in case projects of
           p # _ \<Rightarrow>
             (case py_index (phases p) (current_phase p) of
                Inl e \<Rightarrow> (Inl e, w1)
              | Inr phase_info \<Rightarrow>
                  (Inr (Some (project_follow_up (project.name p) (phase.name phase_info))), w1))
         | [] \<Rightarrow>
             (let (habits, w2) = get_active_habits c w1
              in case habits of
                   h # _ \<Rightarrow> (Inr (Some (habit_follow_up (habit.name h) (streak h))), w2)
                 | [] \<Rightarrow> (Inr None, w2)))"

definition detect_and_track ::
  "(str \<Rightarrow> str) \<Rightarrow> 'w collaborators \<Rightarrow> str \<Rightarrow> 'w \<Rightarrow> (error + intent_result) \<times> 'w" where
  "detect_and_track ul c text w =
     (let result0 = \<lparr>intent_result.action = ascii ''none'', message = None\<rparr>;
          (project_result, w1) = project_process_message c text w;
          result1 =
            (if proc_result.action project_result
                  \<in> set [ascii ''create_project'', ascii ''update_progress'']
             then result0\<lparr>intent_result.action := proc_result.action project_result,
                          message := response project_result\<rparr>
             else result0);
          (habit_result, w2) = habit_process_message c text w1;
          result2 =
            (if proc_result.action habit_result \<in> set [ascii ''create_habit'', ascii ''log_habit'']
             then result1\<lparr>intent_result.action := proc_result.action habit_result,
                          message := response habit_result\<rparr>
             else result1)
      in if message result2 = None \<and> is_casual_message ul text
         then (case generate_follow_up c w2 of
                 (Inl e, w3) \<Rightarrow> (Inl e, w3)
               | (Inr follow_up, w3) \<Rightarrow>
                   if truthy follow_up
                   then (Inr (result2\<lparr>intent_result.action := ascii ''follow_up'',
                                      message := follow_up\<rparr>), w3)
                   else (Inr result2, w3))
         else (Inr result2, w2))"

record project_status =
  name :: str
  phase :: str
  progress :: str

record habit_status =
  name :: str
  streak :: int
  total :: int

record status =
  active_projects :: nat
  active_habits :: nat
  projects :: "project_status list"
  habits :: "habit_status list"

fun project_entries :: "project list \<Rightarrow> error + project_status list" where
  "project_entries [] = Inr []"
| "project_entries (p # ps) =
     (case py_index (phases p) (current_phase p) of
        Inl e \<Rightarrow> Inl e
      | Inr phase_info \<Rightarrow>
          (case project_entries ps of
             Inl e \<Rightarrow> Inl e
           | Inr es \<Rightarrow>
               Inr (\<lparr>project_status.name = project.name p,
                     phase = phase.name phase_info,
                     progress = str_of_int (current_phase p + 1) @ ascii ''/''
                                @ str_of_int (int (length (phases p)))\<rparr> # es)))"

definition habit_entry :: "habit \<Rightarrow> habit_status" where
  "habit_entry h =
     \<lparr>habit_status.name = habit.name h, streak = habit.streak h, total = habit.total h\<rparr>"

definition get_status :: "'w collaborators \<Rightarrow> 'w \<Rightarrow> (error + status) \<times> 'w" where
  "get_status c w =
     (let (pending, w1) = get_pending_projects c w;
          (active, w2) = get_active_habits c w1
      in (case project_entries pending of
            Inl e \<Rightarrow> Inl e
          | Inr es \<Rightarrow>
              Inr \<lparr>active_projects = length pending, active_habits = length active,
                   projects = es, habits = map habit_entry active\<rparr>,
          w2))"

text \<open>
  \<open>process_text\<close> builds a fresh bridge; the collaborators it constructs and the state
  they start from are the parameters \<open>c\<close> and \<open>w\<close>.
\<close>

definition process_text ::
  "(str \<Rightarrow> str) \<Rightarrow> 'w collaborators \<Rightarrow> str \<Rightarrow> 'w \<Rightarrow> (error + str option) \<times> 'w" where
  "process_text ul c text w =
     (case detect_and_track ul c text w of
        (Inl e, w') \<Rightarrow> (Inl e, w')
      | (Inr result, w') \<Rightarrow>
          if truthy (message result) then (Inr (message result), w') else (Inr None, w'))"


section \<open>Scripted collaborators for concrete runs\<close>

text \<open>
  A collaborator state that holds the pending projects and the active habits, and a pair
  of assistants that answer every message with a fixed \<open>process_message\<close> result and
  read the two lists without changing them.
\<close>

record world =
  pending :: "project list"
  active :: "habit list"

definition scripted :: "proc_result \<Rightarrow> proc_result \<Rightarrow> world collaborators" where
  "scripted pr hr =
     \<lparr>project_process_message = (\<lambda>text w. (pr, w)),
      get_pending_projects = (\<lambda>w. (pending w, w)),
      habit_process_message = (\<lambda>text w. (hr, w)),
      get_active_habits = (\<lambda>w. (active w, w))\<rparr>"

definition silent :: proc_result where
  "silent = \<lparr>proc_result.action = ascii ''none'', response = None\<rparr>"

definition created :: proc_result where
  "created = \<lparr>proc_result.action = ascii ''create_project'', response = Some (ascii ''Got it!'')\<rparr>"

definition created_null :: proc_result where
  "created_null = \<lparr>proc_result.action = ascii ''create_project'', response = None\<rparr>"

definition created_empty :: proc_result where
  "created_empty = \<lparr>proc_result.action = ascii ''create_project'', response = Some []\<rparr>"

definition logged :: proc_result where
  "logged = \<lparr>proc_result.action = ascii ''log_habit'', response = Some (ascii ''Logged!'')\<rparr>"

definition logged_null :: proc_result where
  "logged_null = \<lparr>proc_result.action = ascii ''log_habit'', response = None\<rparr>"

definition website :: project where
  "website =
     \<lparr>project.name = ascii ''Website Redesign'',
      phases = [\<lparr>phase.name = ascii ''Planning''\<rparr>, \<lparr>phase.name = ascii ''Design''\<rparr>,
                \<lparr>phase.name = ascii ''Build''\<rparr>],
      current_phase = 1\<rparr>"

definition piano :: project where
  "piano =
     \<lparr>project.name = ascii ''Piano'',
      phases = [\<lparr>phase.name = ascii ''Scales''\<rparr>, \<lparr>phase.name = ascii ''Chords''\<rparr>,
                \<lparr>phase.name = ascii ''Pieces''\<rparr>],
      current_phase = 0\<rparr>"

definition running :: habit where
  "running = \<lparr>habit.name = ascii ''Running'', streak = 5, total = 12\<rparr>"

definition busy :: world where
  "busy = \<lparr>pending = [website, piano], active = [running]\<rparr>"

definition habits_only :: world where
  "habits_only = \<lparr>pending = [], active = [running]\<rparr>"

definition idle :: world where
  "idle = \<lparr>pending = [], active = []\<rparr>"

text \<open>A project whose \<open>current_phase\<close> points past its only phase.\<close>

definition stalled :: project where
  "stalled =
     \<lparr>project.name = ascii ''Stalled'', phases = [\<lparr>phase.name = ascii ''Only''\<rparr>],
      current_phase = 1\<rparr>"

definition broken :: world where
  "broken = \<lparr>pending = [stalled], active = [running]\<rparr>"

text \<open>Reading a decimal numeral back, to state that \<open>digits\<close> is the decimal rendering.\<close>

definition decimal_value :: "str \<Rightarrow> nat" where
  "decimal_value s = foldl (\<lambda>a d. 10 * a + (d - 48)) 0 s"


section \<open>Facts about the string operations\<close>

lemma str_lower_pattern: "p \<in> set casual_patterns \<Longrightarrow> str_lower ul p = p"
  by (auto simp: casual_patterns_def str_lower_def plain_cp_def lower_ascii_def ascii_def)

lemma is_casual_message_iff:
  "is_casual_message ul text \<longleftrightarrow> (\<exists>p \<in> set casual_patterns. sublist p (str_lower ul text))"
  by (simp add: is_casual_message_def list_ex_iff str_lower_pattern)

lemma decimal_value_snoc: "decimal_value (s @ [d]) = 10 * decimal_value s + (d - 48)"
  by (simp add: decimal_value_def)

lemma decimal_value_digits: "decimal_value (digits n) = n"
proof (induction n rule: digits.induct)
  case (1 n)
  show ?case
  proof (cases "n < 10")
    case True
    then show ?thesis by (simp add: decimal_value_def)
  next
    case False
    then have "digits n = digits (n div 10) @ [48 + n mod 10]" by simp
    with 1 False show ?thesis by (simp add: decimal_value_snoc del: digits.simps)
  qed
qed

lemma digits_range: "d \<in> set (digits n) \<Longrightarrow> 48 \<le> d \<and> d \<le> 57"
proof (induction n rule: digits.induct)
  case (1 n)
  show ?case
  proof (cases "n < 10")
    case True
    with 1(2) show ?thesis by simp
  next
    case False
    then have "digits n = digits (n div 10) @ [48 + n mod 10]" by simp
    with 1 False show ?thesis by (auto simp del: digits.simps)
  qed
qed

lemma sublist_project_follow_up:
  "sublist a (project_follow_up a b)" "sublist b (project_follow_up a b)"
  unfolding project_follow_up_def
  by (metis sublist_appendI append.assoc sublist_order.order_refl sublist_append_rightI
      sublist_append_leftI)+

lemma scripted_sel [simp]:
  "project_process_message (scripted pr hr) text w = (pr, w)"
  "habit_process_message (scripted pr hr) text w = (hr, w)"
  "get_pending_projects (scripted pr hr) w = (pending w, w)"
  "get_active_habits (scripted pr hr) w = (active w, w)"
  by (simp_all add: scripted_def)

lemma not_casual_status_report:
  "\<forall>p \<in> set casual_patterns. \<not> sublist p (str_lower ul (ascii ''status report''))"
  by (simp add: casual_patterns_def str_lower_def plain_cp_def lower_ascii_def ascii_def
      sublist_code)

lemma casual_hi: "is_casual_message ul (ascii ''hi'')"
  unfolding is_casual_message_iff
  by (rule bexI[of _ "ascii ''hi''"])
     (simp_all add: casual_patterns_def str_lower_def plain_cp_def lower_ascii_def ascii_def)

section \<open>Claims about \<open>detect_and_track\<close>\<close>

text \<open>
  Claim C5. When neither collaborator reports a recognised action and the lower-cased
  text contains none of the casual markers, \<open>detect_and_track\<close> returns exactly
  \<open>{action: none, message: null}\<close> (and leaves the collaborators in the state the two
  \<open>process_message\<close> calls produced).
\<close>

theorem no_intent_no_marker_gives_none:
  assumes "project_process_message c text w = (pr, w1)"
      and "habit_process_message c text w1 = (hr, w2)"
      and "proc_result.action pr \<notin> {ascii ''create_project'', ascii ''update_progress''}"
      and "proc_result.action hr \<notin> {ascii ''create_habit'', ascii ''log_habit''}"
      and "\<forall>p \<in> set casual_patterns. \<not> sublist p (str_lower ul text)"
  shows "detect_and_track ul c text w =
           (Inr \<lparr>intent_result.action = ascii ''none'', message = None\<rparr>, w2)"
  using assms by (simp add: detect_and_track_def is_casual_message_iff)

theorem no_intent_no_marker_gives_none_witness:
  "detect_and_track ascii_only_lower (scripted silent silent) (ascii ''status report'') busy
     = (Inr \<lparr>intent_result.action = ascii ''none'', message = None\<rparr>, busy)"
proof -
  have a: "proc_result.action silent \<notin> {ascii ''create_project'', ascii ''update_progress''}"
    by (simp add: silent_def ascii_def)
  have b: "proc_result.action silent \<notin> {ascii ''create_habit'', ascii ''log_habit''}"
    by (simp add: silent_def ascii_def)
  show ?thesis
    by (rule no_intent_no_marker_gives_none
          [OF scripted_sel(1) scripted_sel(2) a b not_casual_status_report])
qed

lemma generate_follow_up_truthy:
  "generate_follow_up c w = (Inr v, w') \<Longrightarrow> truthy v \<longleftrightarrow> v \<noteq> None"
  by (auto simp: generate_follow_up_def truthy_def project_follow_up_def habit_follow_up_def
      split: prod.splits list.splits sum.splits)

text \<open>The result after steps 1 and 2, when the habit assistant fired.\<close>

lemma detect_and_track_habit:
  assumes "project_process_message c text w = (pr, w1)"
      and "habit_process_message c text w1 = (hr, w2)"
      and "proc_result.action hr \<in> {ascii ''create_habit'', ascii ''log_habit''}"
  shows "detect_and_track ul c text w =
     (if response hr = None \<and> is_casual_message ul text
      then (case generate_follow_up c w2 of
              (Inl e, w3) \<Rightarrow> (Inl e, w3)
            | (Inr follow_up, w3) \<Rightarrow>
                if follow_up \<noteq> None
                then (Inr \<lparr>intent_result.action = ascii ''follow_up'', message = follow_up\<rparr>, w3)
                else (Inr \<lparr>intent_result.action = proc_result.action hr, message = None\<rparr>, w3))
      else (Inr \<lparr>intent_result.action = proc_result.action hr, message = response hr\<rparr>, w2))"
  using assms
  by (auto simp: detect_and_track_def Let_def generate_follow_up_truthy
      split: prod.splits sum.splits)

text \<open>
  Claim C1 (as amended). When the project assistant reports \<open>create_project\<close> or
  \<open>update_progress\<close> and the habit assistant reports \<open>create_habit\<close> or \<open>log_habit\<close>,
  \<open>detect_and_track\<close> returns the habit assistant's action and response, provided step 3
  does not replace them: the habit response is non-null, or the text is not casual, or
  \<open>_generate_follow_up\<close> returns null. Otherwise (a null habit response on a casual
  text) step 3 decides: when \<open>_generate_follow_up\<close> returns a message the result is
  \<open>follow_up\<close> with that message, and when it raises, \<open>detect_and_track\<close> raises the same
  error and returns nothing.
\<close>

theorem habit_result_overwrites_project_result:
  assumes "project_process_message c text w = (pr, w1)"
      and "habit_process_message c text w1 = (hr, w2)"
      and "proc_result.action pr \<in> {ascii ''create_project'', ascii ''update_progress''}"
      and "proc_result.action hr \<in> {ascii ''create_habit'', ascii ''log_habit''}"
  shows "(response hr \<noteq> None \<or> \<not> is_casual_message ul text
            \<or> fst (generate_follow_up c w2) = Inr None
          \<longrightarrow> fst (detect_and_track ul c text w)
                = Inr \<lparr>intent_result.action = proc_result.action hr, message = response hr\<rparr>)
       \<and> (\<forall>m. response hr = None \<and> is_casual_message ul text
              \<and> fst (generate_follow_up c w2) = Inr (Some m)
          \<longrightarrow> fst (detect_and_track ul c text w)
                = Inr \<lparr>intent_result.action = ascii ''follow_up'', message = Some m\<rparr>)
       \<and> (\<forall>e. response hr = None \<and> is_casual_message ul text
              \<and> fst (generate_follow_up c w2) = Inl e
          \<longrightarrow> fst (detect_and_track ul c text w) = Inl e)"
  by (auto simp: detect_and_track_habit[OF assms(1,2,4)] split: prod.splits sum.splits)


text \<open>The three steps of \<open>detect_and_track\<close>, with the outcome of steps 1 and 2 spelled out.\<close>

lemma detect_and_track_steps:
  assumes "project_process_message c text w = (pr, w1)"
      and "habit_process_message c text w1 = (hr, w2)"
  shows "detect_and_track ul c text w =
     (let r2 = (if proc_result.action hr \<in> {ascii ''create_habit'', ascii ''log_habit''}
                then \<lparr>intent_result.action = proc_result.action hr, message = response hr\<rparr>
                else if proc_result.action pr \<in> {ascii ''create_project'', ascii ''update_progress''}
                then \<lparr>intent_result.action = proc_result.action pr, message = response pr\<rparr>
                else \<lparr>intent_result.action = ascii ''none'', message = None\<rparr>)
      in if message r2 = None \<and> is_casual_message ul text
         then (case generate_follow_up c w2 of
                 (Inl e, w3) \<Rightarrow> (Inl e, w3)
               | (Inr follow_up, w3) \<Rightarrow>
                   if follow_up \<noteq> None
                   then (Inr \<lparr>intent_result.action = ascii ''follow_up'', message = follow_up\<rparr>, w3)
                   else (Inr r2, w3))
         else (Inr r2, w2))"
  using assms
  by (auto simp: detect_and_track_def Let_def generate_follow_up_truthy
      split: prod.splits sum.splits)

lemma follow_up_busy:
  "generate_follow_up (scripted pr hr) busy
     = (Inr (Some (project_follow_up (ascii ''Website Redesign'') (ascii ''Design''))), busy)"
  by (simp add: generate_follow_up_def busy_def website_def py_index_def)

lemma created_fires:
  "proc_result.action created \<in> {ascii ''create_project'', ascii ''update_progress''}"
  by (simp add: created_def)

lemma logged_fires: "proc_result.action logged \<in> {ascii ''create_habit'', ascii ''log_habit''}"
  by (simp add: logged_def)

lemma logged_null_fires:
  "proc_result.action logged_null \<in> {ascii ''create_habit'', ascii ''log_habit''}"
  by (simp add: logged_null_def)

lemma silent_quiet:
  "proc_result.action silent \<notin> {ascii ''create_project'', ascii ''update_progress''}"
  "proc_result.action silent \<notin> {ascii ''create_habit'', ascii ''log_habit''}"
  by (simp_all add: silent_def ascii_def)

lemma follow_up_broken:
  "generate_follow_up (scripted pr hr) broken = (Inl IndexError, broken)"
  by (simp add: generate_follow_up_def broken_def stalled_def py_index_def)

theorem habit_result_overwrites_project_result_witness:
  "fst (detect_and_track ascii_only_lower (scripted created logged) (ascii ''hi'') busy)
     = Inr \<lparr>intent_result.action = ascii ''log_habit'', message = Some (ascii ''Logged!'')\<rparr>
   \<and> fst (detect_and_track ascii_only_lower (scripted created logged_null) (ascii ''hi'') idle)
     = Inr \<lparr>intent_result.action = ascii ''log_habit'', message = None\<rparr>
   \<and> fst (detect_and_track ascii_only_lower (scripted created logged_null) (ascii ''hi'') busy)
     = Inr \<lparr>intent_result.action = ascii ''follow_up'',
            message = Some (project_follow_up (ascii ''Website Redesign'') (ascii ''Design''))\<rparr>
   \<and> fst (detect_and_track ascii_only_lower (scripted created logged_null) (ascii ''hi'') broken)
     = Inl IndexError"
proof -
  have n: "response logged \<noteq> None" "response logged_null = None"
    by (simp_all add: logged_def logged_null_def)
  have i: "fst (generate_follow_up (scripted created logged_null) idle) = Inr None"
    by (simp add: generate_follow_up_def idle_def)
  have b: "fst (generate_follow_up (scripted created logged_null) busy)
             = Inr (Some (project_follow_up (ascii ''Website Redesign'') (ascii ''Design'')))"
    by (simp add: follow_up_busy)
  have e: "fst (generate_follow_up (scripted created logged_null) broken) = Inl IndexError"
    by (simp add: follow_up_broken)
  note t = habit_result_overwrites_project_result
             [OF scripted_sel(1) scripted_sel(2) created_fires]
  from t [OF logged_fires, of ascii_only_lower "ascii ''hi''" busy] n(1)
  have 1: "fst (detect_and_track ascii_only_lower (scripted created logged) (ascii ''hi'') busy)
     = Inr \<lparr>intent_result.action = ascii ''log_habit'', message = Some (ascii ''Logged!'')\<rparr>"
    by (simp add: logged_def)
  from t [OF logged_null_fires, of ascii_only_lower "ascii ''hi''" idle] i
  have 2: "fst (detect_and_track ascii_only_lower (scripted created logged_null) (ascii ''hi'') idle)
     = Inr \<lparr>intent_result.action = ascii ''log_habit'', message = None\<rparr>"
    by (simp add: logged_null_def)
  from t [OF logged_null_fires, of ascii_only_lower "ascii ''hi''" busy] n(2) b casual_hi
  have 3: "fst (detect_and_track ascii_only_lower (scripted created logged_null) (ascii ''hi'') busy)
     = Inr \<lparr>intent_result.action = ascii ''follow_up'',
            message = Some (project_follow_up (ascii ''Website Redesign'') (ascii ''Design''))\<rparr>"
    by blast
  from t [OF logged_null_fires, of ascii_only_lower "ascii ''hi''" broken] n(2) e casual_hi
  have 4: "fst (detect_and_track ascii_only_lower (scripted created logged_null) (ascii ''hi'') broken)
     = Inl IndexError"
    by blast
  from 1 2 3 4 show ?thesis by blast
qed

text \<open>
  The proviso is needed: with a null habit response on the casual text \<open>hi\<close> and a
  pending project, both assistants fire and the result is the follow-up.
\<close>

theorem habit_result_replaced_by_follow_up_counterexample:
  "proc_result.action (fst (project_process_message (scripted created logged_null) (ascii ''hi'') busy))
     \<in> {ascii ''create_project'', ascii ''update_progress''}
   \<and> proc_result.action (fst (habit_process_message (scripted created logged_null) (ascii ''hi'') busy))
     \<in> {ascii ''create_habit'', ascii ''log_habit''}
   \<and> fst (detect_and_track ascii_only_lower (scripted created logged_null) (ascii ''hi'') busy)
     = Inr \<lparr>intent_result.action = ascii ''follow_up'',
            message = Some (project_follow_up (ascii ''Website Redesign'') (ascii ''Design''))\<rparr>
   \<and> fst (detect_and_track ascii_only_lower (scripted created logged_null) (ascii ''hi'') busy)
     \<noteq> Inr \<lparr>intent_result.action = proc_result.action logged_null,
             message = response logged_null\<rparr>"
proof -
  have "fst (detect_and_track ascii_only_lower (scripted created logged_null) (ascii ''hi'') busy)
     = Inr \<lparr>intent_result.action = ascii ''follow_up'',
            message = Some (project_follow_up (ascii ''Website Redesign'') (ascii ''Design''))\<rparr>"
    using logged_null_fires
    by (simp add: detect_and_track_steps[OF scripted_sel(1) scripted_sel(2)] casual_hi
        follow_up_busy logged_null_def)
  then show ?thesis
    using created_fires logged_null_fires by (simp add: logged_null_def)
qed

lemma not_casual_learn_piano:
  "\<not> is_casual_message ul (ascii ''create project: learn piano'')"
  unfolding is_casual_message_iff
  by (simp add: casual_patterns_def str_lower_def plain_cp_def lower_ascii_def ascii_def
      sublist_code)

text \<open>
  Claim C2 (as amended). When both assistants report a matching action in the same call,
  the project branch never populates the result: the returned action differs from the
  project assistant's action, and the result is either the habit assistant's action and
  response or, when that response is null and the text is casual, a follow-up.
\<close>

theorem project_result_never_survives_habit_result:
  assumes "project_process_message c text w = (pr, w1)"
      and "habit_process_message c text w1 = (hr, w2)"
      and "proc_result.action pr \<in> {ascii ''create_project'', ascii ''update_progress''}"
      and "proc_result.action hr \<in> {ascii ''create_habit'', ascii ''log_habit''}"
      and "fst (detect_and_track ul c text w) = Inr r"
  shows "intent_result.action r \<noteq> proc_result.action pr
       \<and> (r = \<lparr>intent_result.action = proc_result.action hr, message = response hr\<rparr>
          \<or> (intent_result.action r = ascii ''follow_up'' \<and> response hr = None
              \<and> is_casual_message ul text))"
proof -
  have d: "proc_result.action hr \<noteq> proc_result.action pr"
    "ascii ''follow_up'' \<noteq> proc_result.action pr"
    using assms(3,4) by (auto simp: ascii_def)
  from assms(5) have
    "r = \<lparr>intent_result.action = proc_result.action hr, message = response hr\<rparr>
     \<or> (intent_result.action r = ascii ''follow_up'' \<and> response hr = None
         \<and> is_casual_message ul text)"
    by (auto simp: detect_and_track_habit[OF assms(1,2,4)]
        split: prod.splits sum.splits if_splits)
  with d show ?thesis by auto
qed

theorem project_result_never_survives_habit_result_witness:
  "intent_result.action
     \<lparr>intent_result.action = ascii ''log_habit'', message = Some (ascii ''Logged!'')\<rparr>
     \<noteq> proc_result.action created
   \<and> fst (detect_and_track ascii_only_lower (scripted created logged)
            (ascii ''create project: learn piano'') idle)
     = Inr \<lparr>intent_result.action = proc_result.action logged, message = response logged\<rparr>"
proof -
  have r: "fst (detect_and_track ascii_only_lower (scripted created logged)
                 (ascii ''create project: learn piano'') idle)
           = Inr \<lparr>intent_result.action = ascii ''log_habit'', message = Some (ascii ''Logged!'')\<rparr>"
    using logged_fires
    by (simp add: detect_and_track_steps[OF scripted_sel(1) scripted_sel(2)] logged_def
        not_casual_learn_piano)
  from project_result_never_survives_habit_result
         [OF scripted_sel(1) scripted_sel(2) created_fires logged_fires r]
  show ?thesis using r by (simp add: logged_def)
qed

text \<open>
  Project detection does not dominate: on a text where both assistants fire, the result
  is the habit assistant's and differs from the project assistant's.
\<close>

theorem project_dominates_counterexample:
  "proc_result.action (fst (project_process_message (scripted created logged)
       (ascii ''create project: learn piano'') busy))
     \<in> {ascii ''create_project'', ascii ''update_progress''}
   \<and> proc_result.action (fst (habit_process_message (scripted created logged)
       (ascii ''create project: learn piano'') busy))
     \<in> {ascii ''create_habit'', ascii ''log_habit''}
   \<and> fst (detect_and_track ascii_only_lower (scripted created logged)
            (ascii ''create project: learn piano'') busy)
     = Inr \<lparr>intent_result.action = ascii ''log_habit'', message = Some (ascii ''Logged!'')\<rparr>
   \<and> fst (detect_and_track ascii_only_lower (scripted created logged)
            (ascii ''create project: learn piano'') busy)
     \<noteq> Inr \<lparr>intent_result.action = proc_result.action created, message = response created\<rparr>"
proof -
  have r: "fst (detect_and_track ascii_only_lower (scripted created logged)
                 (ascii ''create project: learn piano'') busy)
           = Inr \<lparr>intent_result.action = ascii ''log_habit'', message = Some (ascii ''Logged!'')\<rparr>"
    using logged_fires
    by (simp add: detect_and_track_steps[OF scripted_sel(1) scripted_sel(2)] logged_def
        not_casual_learn_piano)
  have "ascii ''Logged!'' \<noteq> ascii ''Got it!''" by (simp add: ascii_def)
  with r show ?thesis
    using created_fires logged_fires by (simp add: created_def)
qed


lemma created_null_fires:
  "proc_result.action created_null \<in> {ascii ''create_project'', ascii ''update_progress''}"
  by (simp add: created_null_def)

text \<open>
  Claim C3 (as amended). In every result that \<open>detect_and_track\<close> returns, a non-null
  message implies an action other than \<open>none\<close>; the converse, and so the equivalence,
  holds when the response adopted in steps 1 and 2 (the habit assistant's if it fired,
  otherwise the project assistant's if it fired) is non-null.
\<close>

theorem message_set_implies_action_set:
  assumes "project_process_message c text w = (pr, w1)"
      and "habit_process_message c text w1 = (hr, w2)"
      and "fst (detect_and_track ul c text w) = Inr r"
  shows "(message r \<noteq> None \<longrightarrow> intent_result.action r \<noteq> ascii ''none'')
       \<and> ((proc_result.action hr \<in> {ascii ''create_habit'', ascii ''log_habit''}
              \<longrightarrow> response hr \<noteq> None)
          \<and> (proc_result.action hr \<notin> {ascii ''create_habit'', ascii ''log_habit''}
              \<and> proc_result.action pr \<in> {ascii ''create_project'', ascii ''update_progress''}
              \<longrightarrow> response pr \<noteq> None)
          \<longrightarrow> (message r \<noteq> None \<longleftrightarrow> intent_result.action r \<noteq> ascii ''none''))"
proof -
  have n: "ascii ''follow_up'' \<noteq> ascii ''none''"
    "ascii ''create_habit'' \<noteq> ascii ''none''" "ascii ''log_habit'' \<noteq> ascii ''none''"
    "ascii ''create_project'' \<noteq> ascii ''none''" "ascii ''update_progress'' \<noteq> ascii ''none''"
    by (simp_all add: ascii_def)
  from assms(3) n show ?thesis
    by (auto simp: detect_and_track_steps[OF assms(1,2)] Let_def
        split: prod.splits sum.splits if_splits)
qed

theorem message_set_implies_action_set_witness:
  "fst (detect_and_track ascii_only_lower (scripted created silent) (ascii ''hi'') idle)
     = Inr \<lparr>intent_result.action = ascii ''create_project'',
            message = Some (ascii ''Got it!'')\<rparr>
   \<and> (message \<lparr>intent_result.action = ascii ''create_project'',
                 message = Some (ascii ''Got it!'')\<rparr> \<noteq> None
        \<longleftrightarrow> intent_result.action
             \<lparr>intent_result.action = ascii ''create_project'',
              message = Some (ascii ''Got it!'')\<rparr> \<noteq> ascii ''none'')"
proof -
  have r: "fst (detect_and_track ascii_only_lower (scripted created silent) (ascii ''hi'') idle)
           = Inr \<lparr>intent_result.action = ascii ''create_project'',
                  message = Some (ascii ''Got it!'')\<rparr>"
    using created_fires silent_quiet
    by (simp add: detect_and_track_steps[OF scripted_sel(1) scripted_sel(2)] created_def)
  have h: "proc_result.action silent \<in> {ascii ''create_habit'', ascii ''log_habit''}
             \<longrightarrow> response silent \<noteq> None"
    using silent_quiet by simp
  have p: "proc_result.action silent \<notin> {ascii ''create_habit'', ascii ''log_habit''}
           \<and> proc_result.action created \<in> {ascii ''create_project'', ascii ''update_progress''}
             \<longrightarrow> response created \<noteq> None"
    by (simp add: created_def)
  from message_set_implies_action_set [OF scripted_sel(1) scripted_sel(2) r] h p
  have "message \<lparr>intent_result.action = ascii ''create_project'',
                 message = Some (ascii ''Got it!'')\<rparr> \<noteq> None
        \<longleftrightarrow> intent_result.action
             \<lparr>intent_result.action = ascii ''create_project'',
              message = Some (ascii ''Got it!'')\<rparr> \<noteq> ascii ''none''"
    by blast
  with r show ?thesis by blast
qed

text \<open>
  With a null response, which the collaborator contract allows, the action is set and the
  message is null.
\<close>

theorem null_response_breaks_invariant_counterexample:
  "fst (detect_and_track ascii_only_lower (scripted created_null silent)
          (ascii ''status report'') idle)
     = Inr \<lparr>intent_result.action = ascii ''create_project'', message = None\<rparr>
   \<and> message \<lparr>intent_result.action = ascii ''create_project'', message = None\<rparr> = None
   \<and> intent_result.action \<lparr>intent_result.action = ascii ''create_project'', message = None\<rparr>
     \<noteq> ascii ''none''"
proof -
  have "\<not> is_casual_message ascii_only_lower (ascii ''status report'')"
    using not_casual_status_report by (simp add: is_casual_message_iff)
  then show ?thesis
    using created_null_fires silent_quiet
    by (simp add: detect_and_track_steps[OF scripted_sel(1) scripted_sel(2)] created_null_def
        ascii_def)
qed

text \<open>
  Claim C4 (as amended). On a casual text, when steps 1 and 2 have set no message, the
  project collaborator (in the state the two \<open>process_message\<close> calls left) has a pending
  project and the \<open>current_phase\<close> of the first one is a valid index of its phases,
  \<open>detect_and_track\<close> returns action \<open>follow_up\<close> with a message that contains that
  project's name and the name of its phase at index \<open>current_phase\<close>.
\<close>

theorem casual_text_follows_up_on_first_project:
  assumes "project_process_message c text w = (pr, w1)"
      and "habit_process_message c text w1 = (hr, w2)"
      and "is_casual_message ul text"
      and "proc_result.action hr \<in> {ascii ''create_habit'', ascii ''log_habit''}
             \<longrightarrow> response hr = None"
      and "proc_result.action hr \<notin> {ascii ''create_habit'', ascii ''log_habit''}
           \<and> proc_result.action pr \<in> {ascii ''create_project'', ascii ''update_progress''}
             \<longrightarrow> response pr = None"
      and "get_pending_projects c w2 = (p # ps, w3)"
      and "py_index (phases p) (current_phase p) = Inr ph"
  shows "\<exists>m. detect_and_track ul c text w
               = (Inr \<lparr>intent_result.action = ascii ''follow_up'', message = Some m\<rparr>, w3)
           \<and> sublist (project.name p) m \<and> sublist (phase.name ph) m"
proof -
  let ?m = "project_follow_up (project.name p) (phase.name ph)"
  have g: "generate_follow_up c w2 = (Inr (Some ?m), w3)"
    using assms(6,7) by (simp add: generate_follow_up_def)
  have "detect_and_track ul c text w
          = (Inr \<lparr>intent_result.action = ascii ''follow_up'', message = Some ?m\<rparr>, w3)"
    using assms(3,4,5) by (auto simp: detect_and_track_steps[OF assms(1,2)] g Let_def)
  then show ?thesis
    using sublist_project_follow_up by blast
qed

theorem casual_text_follows_up_on_first_project_witness:
  "\<exists>m. detect_and_track ascii_only_lower (scripted silent silent) (ascii ''hi'') busy
          = (Inr \<lparr>intent_result.action = ascii ''follow_up'', message = Some m\<rparr>, busy)
      \<and> sublist (ascii ''Website Redesign'') m \<and> sublist (ascii ''Design'') m"
proof -
  have h: "proc_result.action silent \<in> {ascii ''create_habit'', ascii ''log_habit''}
             \<longrightarrow> response silent = None"
    by (simp add: silent_def)
  have p: "proc_result.action silent \<notin> {ascii ''create_habit'', ascii ''log_habit''}
           \<and> proc_result.action silent \<in> {ascii ''create_project'', ascii ''update_progress''}
             \<longrightarrow> response silent = None"
    by (simp add: silent_def)
  have g: "get_pending_projects (scripted silent silent) busy = (website # [piano], busy)"
    by (simp add: busy_def)
  have i: "py_index (phases website) (current_phase website)
             = Inr \<lparr>phase.name = ascii ''Design''\<rparr>"
    by (simp add: website_def py_index_def)
  from casual_text_follows_up_on_first_project
         [OF scripted_sel(1) scripted_sel(2) casual_hi h p g i]
  show ?thesis by (simp add: website_def)
qed

text \<open>
  A casual marker and a pending project are not enough: when the project assistant has
  answered the same text, step 3 is skipped.
\<close>

theorem casual_text_with_intent_counterexample:
  "is_casual_message ascii_only_lower (ascii ''hi'')
   \<and> fst (get_pending_projects (scripted created silent) busy) = [website, piano]
   \<and> fst (detect_and_track ascii_only_lower (scripted created silent) (ascii ''hi'') busy)
     = Inr \<lparr>intent_result.action = ascii ''create_project'',
            message = Some (ascii ''Got it!'')\<rparr>
   \<and> ascii ''create_project'' \<noteq> ascii ''follow_up''"
proof -
  have "ascii ''create_project'' \<noteq> ascii ''follow_up''" by (simp add: ascii_def)
  then show ?thesis
    using created_fires silent_quiet casual_hi
    by (simp add: detect_and_track_steps[OF scripted_sel(1) scripted_sel(2)] created_def
        busy_def)
qed

section \<open>Claims about \<open>_generate_follow_up\<close>, \<open>get_status\<close> and \<open>process_text\<close>\<close>

text \<open>
  Claim C6. \<open>_generate_follow_up\<close> prefers projects over habits. With a non-empty
  pending-project sequence the outcome is decided by its first element alone and the
  habit collaborator is not queried: the message is formatted from the project's name and
  the name of its phase at \<open>current_phase\<close> (an index outside the phases, which the
  collaborator promises not to produce, raises \<open>IndexError\<close>). With no pending project
  and a non-empty active-habit sequence the message is formatted from the first habit's
  name and streak count. With neither, the result is null.
\<close>

theorem follow_up_prefers_projects:
  assumes "get_pending_projects c w = (pend, w1)"
      and "get_active_habits c w1 = (acts, w2)"
  shows "(\<forall>p ps ph. pend = p # ps
            \<and> py_index (phases p) (current_phase p) = Inr ph
          \<longrightarrow> generate_follow_up c w
               = (Inr (Some ([0x5BF9, 0x4E86, 0xFF0C] @ project.name p
                    @ [0x8FDB, 0x5C55, 0x600E, 0x4E48, 0x6837, 0x5566, 0xFF1F] @ phase.name ph
                    @ [0x9636, 0x6BB5, 0x6709, 0x4EC0, 0x4E48, 0x9700, 0x8981, 0x5E2E, 0x5FD9,
                       0x7684, 0x5417, 0xFF1F])), w1))
       \<and> (\<forall>p ps. pend = p # ps
            \<and> py_index (phases p) (current_phase p) = Inl IndexError
          \<longrightarrow> generate_follow_up c w = (Inl IndexError, w1))
       \<and> (\<forall>h hs. pend = [] \<and> acts = h # hs
          \<longrightarrow> generate_follow_up c w
               = (Inr (Some (habit.name h @ [0x8FDE, 0x7EED] @ str_of_int (habit.streak h)
                    @ [0x5929, 0x4E86, 0xFF01, 0x4ECA, 0x5929, 0x505A, 0x4E86, 0x5417,
                       0xFF1F])), w2))
       \<and> (pend = [] \<and> acts = []
          \<longrightarrow> generate_follow_up c w = (Inr None, w2))"
proof -
  have g: "generate_follow_up c w =
     (case pend of
        p # _ \<Rightarrow>
          (case py_index (phases p) (current_phase p) of
             Inl e \<Rightarrow> (Inl e, w1)
           | Inr ph \<Rightarrow> (Inr (Some (project_follow_up (project.name p) (phase.name ph))), w1))
      | [] \<Rightarrow>
          (case acts of
             h # _ \<Rightarrow> (Inr (Some (habit_follow_up (habit.name h) (habit.streak h))), w2)
           | [] \<Rightarrow> (Inr None, w2)))"
    by (simp add: generate_follow_up_def assms split: list.splits)
  show ?thesis
    by (simp add: g project_follow_up_def habit_follow_up_def)
qed

theorem follow_up_prefers_projects_witness:
  "generate_follow_up (scripted silent silent) busy
     = (Inr (Some ([0x5BF9, 0x4E86, 0xFF0C] @ ascii ''Website Redesign''
          @ [0x8FDB, 0x5C55, 0x600E, 0x4E48, 0x6837, 0x5566, 0xFF1F] @ ascii ''Design''
          @ [0x9636, 0x6BB5, 0x6709, 0x4EC0, 0x4E48, 0x9700, 0x8981, 0x5E2E, 0x5FD9,
             0x7684, 0x5417, 0xFF1F])), busy)
   \<and> generate_follow_up (scripted silent silent) habits_only
     = (Inr (Some (ascii ''Running'' @ [0x8FDE, 0x7EED] @ ascii ''5''
          @ [0x5929, 0x4E86, 0xFF01, 0x4ECA, 0x5929, 0x505A, 0x4E86, 0x5417, 0xFF1F])),
        habits_only)
   \<and> generate_follow_up (scripted silent silent) idle = (Inr None, idle)"
proof -
  have i: "py_index (phases website) (current_phase website)
             = Inr \<lparr>phase.name = ascii ''Design''\<rparr>"
    by (simp add: website_def py_index_def)
  have s: "str_of_int 5 = ascii ''5''"
    by (simp add: str_of_int_def ascii_def)
  have b: "get_pending_projects (scripted silent silent) busy = (website # [piano], busy)"
    "get_active_habits (scripted silent silent) busy = ([running], busy)"
    by (simp_all add: busy_def)
  have ho: "get_pending_projects (scripted silent silent) habits_only = ([], habits_only)"
    "get_active_habits (scripted silent silent) habits_only = (running # [], habits_only)"
    by (simp_all add: habits_only_def)
  have id: "get_pending_projects (scripted silent silent) idle = ([], idle)"
    "get_active_habits (scripted silent silent) idle = ([], idle)"
    by (simp_all add: idle_def)
  from follow_up_prefers_projects [OF b] follow_up_prefers_projects [OF ho]
    follow_up_prefers_projects [OF id] i s
  show ?thesis
    by (simp add: website_def running_def)
qed

lemma project_entries_length: "project_entries ps = Inr es \<Longrightarrow> length es = length ps"
  by (induction ps arbitrary: es) (auto split: sum.splits)

lemma project_entries_nth:
  "project_entries ps = Inr es \<Longrightarrow> i < length ps \<Longrightarrow>
   \<exists>ph. py_index (phases (ps ! i)) (current_phase (ps ! i)) = Inr ph
      \<and> es ! i = \<lparr>project_status.name = project.name (ps ! i), phase = phase.name ph,
                  progress = str_of_int (current_phase (ps ! i) + 1) @ ascii ''/''
                             @ str_of_int (int (length (phases (ps ! i))))\<rparr>"
proof (induction ps arbitrary: es i)
  case Nil
  then show ?case by simp
next
  case (Cons p ps)
  from Cons.prems(1) obtain ph es' where
    ph: "py_index (phases p) (current_phase p) = Inr ph" and
    es': "project_entries ps = Inr es'" and
    es: "es = \<lparr>project_status.name = project.name p, phase = phase.name ph,
               progress = str_of_int (current_phase p + 1) @ ascii ''/''
                          @ str_of_int (int (length (phases p)))\<rparr> # es'"
    by (auto split: sum.splits)
  show ?case
  proof (cases i)
    case 0
    with ph es show ?thesis by simp
  next
    case (Suc j)
    with Cons.prems(2) have "j < length ps" by simp
    from Cons.IH[OF es' this] Suc es show ?thesis by simp
  qed
qed

lemma get_status_projects:
  assumes "get_pending_projects c w = (ps, w1)"
      and "fst (get_status c w) = Inr s"
  shows "project_entries ps = Inr (projects s)"
  using assms by (auto simp: get_status_def split: prod.splits sum.splits)

text \<open>
  Claim C7. In a snapshot returned by \<open>get_status\<close> there is one entry per pending
  project, in order; the entry's \<open>progress\<close> is the decimal rendering of
  \<open>current_phase + 1\<close>, a slash, and the decimal rendering of the number of phases, and
  its \<open>phase\<close> is the name of the phase descriptor at index \<open>current_phase\<close>. With phase
  index 0 of 3 phases the progress is \<open>1/3\<close>.
\<close>

theorem status_progress_and_phase:
  assumes "get_pending_projects c w = (ps, w1)"
      and "fst (get_status c w) = Inr s"
      and "i < length ps"
  shows "length (projects s) = length ps
       \<and> project_status.name (projects s ! i) = project.name (ps ! i)
       \<and> progress (projects s ! i)
           = str_of_int (current_phase (ps ! i) + 1) @ ascii ''/''
             @ str_of_int (int (length (phases (ps ! i))))
       \<and> (\<exists>ph. py_index (phases (ps ! i)) (current_phase (ps ! i)) = Inr ph
              \<and> phase (projects s ! i) = phase.name ph)"
proof -
  have e: "project_entries ps = Inr (projects s)"
    using assms(1,2) by (rule get_status_projects)
  from project_entries_nth[OF e assms(3)] project_entries_length[OF e]
  show ?thesis by auto
qed

lemma status_busy:
  "get_status (scripted pr hr) busy =
     (Inr \<lparr>active_projects = 2, active_habits = 1,
           projects = [\<lparr>project_status.name = ascii ''Website Redesign'',
                        phase = ascii ''Design'', progress = ascii ''2/3''\<rparr>,
                       \<lparr>project_status.name = ascii ''Piano'',
                        phase = ascii ''Scales'', progress = ascii ''1/3''\<rparr>],
           habits = [\<lparr>habit_status.name = ascii ''Running'', streak = 5, total = 12\<rparr>]\<rparr>,
      busy)"
  by (simp add: get_status_def busy_def website_def piano_def running_def py_index_def
      str_of_int_def habit_entry_def ascii_def)

theorem status_progress_and_phase_witness:
  "(1::nat) < length [website, piano]
   \<and> progress (projects (projr (fst (get_status (scripted silent silent) busy))) ! 1)
       = str_of_int (0 + 1) @ ascii ''/'' @ str_of_int 3
   \<and> str_of_int (0 + 1) @ ascii ''/'' @ str_of_int 3 = ascii ''1/3''
   \<and> phase (projects (projr (fst (get_status (scripted silent silent) busy))) ! 1)
       = ascii ''Scales''"
proof -
  have g: "get_pending_projects (scripted silent silent) busy = ([website, piano], busy)"
    by (simp add: busy_def)
  have r: "fst (get_status (scripted silent silent) busy)
             = Inr (projr (fst (get_status (scripted silent silent) busy)))"
    by (simp add: status_busy)
  have i: "(1::nat) < length [website, piano]" by simp
  have p: "py_index (phases piano) (current_phase piano) = Inr \<lparr>phase.name = ascii ''Scales''\<rparr>"
    by (simp add: piano_def py_index_def)
  have d: "str_of_int (0 + 1) @ ascii ''/'' @ str_of_int 3 = ascii ''1/3''"
    by (simp add: str_of_int_def ascii_def)
  from status_progress_and_phase [OF g r i] p d i
  show ?thesis by (simp add: piano_def)
qed

text \<open>
  Claim C8. \<open>get_status\<close> writes nothing of its own: when the two collaborator queries
  \<open>get_pending_projects\<close> and \<open>get_active_habits\<close> leave the collaborator state as it
  is, so does \<open>get_status\<close>, and a second call right after the first returns the same
  snapshot (or raises the same error).
\<close>

theorem get_status_repeatable:
  assumes "\<forall>v. snd (get_pending_projects c v) = v"
      and "\<forall>v. snd (get_active_habits c v) = v"
  shows "snd (get_status c w) = w
       \<and> get_status c (snd (get_status c w)) = get_status c w"
proof -
  have "snd (get_status c w) = w"
    using assms by (auto simp: get_status_def split: prod.splits) (metis snd_conv)
  then show ?thesis by simp
qed

theorem get_status_repeatable_witness:
  "snd (get_status (scripted silent silent) busy) = busy
   \<and> get_status (scripted silent silent) (snd (get_status (scripted silent silent) busy))
     = get_status (scripted silent silent) busy"
proof -
  have a: "\<forall>v. snd (get_pending_projects (scripted silent silent) v) = v" by simp
  have b: "\<forall>v. snd (get_active_habits (scripted silent silent) v) = v" by simp
  from get_status_repeatable [OF a b] show ?thesis .
qed

lemma casual_upper_this: "is_casual_message ul (ascii ''THIS'')"
  unfolding is_casual_message_iff
  by (rule bexI[of _ "ascii ''hi''"])
     (simp_all add: casual_patterns_def str_lower_def plain_cp_def lower_ascii_def ascii_def
        sublist_code)

lemma casual_this: "is_casual_message ul (ascii ''this'')"
  unfolding is_casual_message_iff
  by (rule bexI[of _ "ascii ''hi''"])
     (simp_all add: casual_patterns_def str_lower_def plain_cp_def lower_ascii_def ascii_def
        sublist_code)

text \<open>
  Claim C9. Casual detection is a case-insensitive substring test, not a word match. The
  text \<open>this\<close> is no marker, yet its lower-cased form contains the marker \<open>hi\<close>, so it
  (and \<open>THIS\<close>) is classified as casual; with both assistants reporting \<open>none\<close> and a
  pending project, \<open>detect_and_track\<close> answers it with a follow-up.
\<close>

theorem substring_match_triggers_follow_up:
  "is_casual_message ul (ascii ''this'')
   \<and> is_casual_message ul (ascii ''THIS'')
   \<and> ascii ''this'' \<notin> set casual_patterns
   \<and> sublist (ascii ''hi'') (str_lower ul (ascii ''this''))
   \<and> proc_result.action (fst (project_process_message (scripted silent silent) (ascii ''this'') busy))
       \<notin> {ascii ''create_project'', ascii ''update_progress''}
   \<and> proc_result.action (fst (habit_process_message (scripted silent silent) (ascii ''this'') busy))
       \<notin> {ascii ''create_habit'', ascii ''log_habit''}
   \<and> fst (detect_and_track ul (scripted silent silent) (ascii ''this'') busy)
       = Inr \<lparr>intent_result.action = ascii ''follow_up'',
              message = Some (project_follow_up (ascii ''Website Redesign'') (ascii ''Design''))\<rparr>"
proof -
  have a: "ascii ''this'' \<notin> set casual_patterns"
    by (simp add: casual_patterns_def ascii_def)
  have b: "sublist (ascii ''hi'') (str_lower ul (ascii ''this''))"
    by (simp add: str_lower_def plain_cp_def lower_ascii_def ascii_def sublist_code)
  have c: "fst (detect_and_track ul (scripted silent silent) (ascii ''this'') busy)
       = Inr \<lparr>intent_result.action = ascii ''follow_up'',
              message = Some (project_follow_up (ascii ''Website Redesign'') (ascii ''Design''))\<rparr>"
    using silent_quiet
    by (simp add: detect_and_track_steps[OF scripted_sel(1) scripted_sel(2)] casual_this
        follow_up_busy)
  from a b c casual_this casual_upper_this silent_quiet show ?thesis by simp
qed

lemma created_empty_fires:
  "proc_result.action created_empty \<in> {ascii ''create_project'', ascii ''update_progress''}"
  by (simp add: created_empty_def)

text \<open>
  Claim C10. \<open>process_text\<close> returns the message of the result only when it is a
  non-empty string: for a message equal to the empty string it returns null, as it does
  for a null message.
\<close>

theorem process_text_tests_truthiness:
  assumes "detect_and_track ul c text w = (Inr r, w')"
  shows "process_text ul c text w
           = (Inr (if message r \<noteq> None \<and> message r \<noteq> Some [] then message r else None), w')
       \<and> (message r = Some [] \<longrightarrow> fst (process_text ul c text w) = Inr None)
       \<and> (message r = None \<longrightarrow> fst (process_text ul c text w) = Inr None)"
  using assms by (auto simp: process_text_def truthy_def split: option.splits)

theorem process_text_tests_truthiness_witness:
  "detect_and_track ascii_only_lower (scripted created_empty silent) (ascii ''hi'') busy
     = (Inr \<lparr>intent_result.action = ascii ''create_project'', message = Some []\<rparr>, busy)
   \<and> fst (process_text ascii_only_lower (scripted created_empty silent) (ascii ''hi'') busy)
     = Inr None"
proof -
  have d: "detect_and_track ascii_only_lower (scripted created_empty silent) (ascii ''hi'') busy
     = (Inr \<lparr>intent_result.action = ascii ''create_project'', message = Some []\<rparr>, busy)"
    using created_empty_fires silent_quiet
    by (simp add: detect_and_track_steps[OF scripted_sel(1) scripted_sel(2)] created_empty_def)
  from process_text_tests_truthiness [OF d] d show ?thesis by simp
qed

end
